theory Spec2Isabelle
  imports Complex_Main
begin

section \<open>Python values\<close>

text \<open>
  The request body and the messages are JSON documents decoded into Python values.
  A \<open>str\<close> is a list of code points below 256. A \<open>float\<close> is the rational it denotes
  (JSON has neither NaN nor infinities). A \<open>dict\<close> is its list of items in insertion
  order; the operations below keep the keys of such a list distinct.
\<close>

datatype pyval =
    PNone
  | PBool bool
  | PInt int
  | PFloat rat
  | PStr string
  | PList "pyval list"
  | PDict "(string \<times> pyval) list"

type_synonym pydict = "(string \<times> pyval) list"

text \<open>Truth value testing: \<open>if v:\<close>.\<close>

fun truthy :: "pyval \<Rightarrow> bool" where
  "truthy PNone = False"
| "truthy (PBool b) = b"
| "truthy (PInt i) = (i \<noteq> 0)"
| "truthy (PFloat r) = (r \<noteq> 0)"
| "truthy (PStr s) = (s \<noteq> [])"
| "truthy (PList xs) = (xs \<noteq> [])"
| "truthy (PDict d) = (d \<noteq> [])"

text \<open>\<open>isinstance(v, str)\<close>.\<close>

fun is_str :: "pyval \<Rightarrow> bool" where
  "is_str (PStr s) = True"
| "is_str v = False"

subsection \<open>Exceptions\<close>

text \<open>
  An exception is its class and \<open>str(e)\<close>. \<open>RequestsJSONDecodeError\<close> is
  \<open>requests.exceptions.JSONDecodeError\<close>, a subclass of both
  \<open>requests.RequestException\<close> and \<open>ValueError\<close>. \<open>RequestException\<close> stands
  for every other class of the \<open>requests\<close> hierarchy (connection errors, timeouts,
  HTTP errors). All classes are subclasses of \<open>Exception\<close>.
\<close>

datatype exn_class =
    KeyError
  | AttributeError
  | UnboundLocalError
  | ValueError
  | RequestException
  | RequestsJSONDecodeError
  | OtherException

datatype exn = Exn exn_class string

fun exn_str :: "exn \<Rightarrow> string" where
  "exn_str (Exn c s) = s"

fun is_RequestException :: "exn \<Rightarrow> bool" where
  "is_RequestException (Exn c s) = (c = RequestException \<or> c = RequestsJSONDecodeError)"

fun is_ValueError :: "exn \<Rightarrow> bool" where
  "is_ValueError (Exn c s) = (c = ValueError \<or> c = RequestsJSONDecodeError)"

subsection \<open>Dictionaries\<close>

text \<open>\<open>d[k]\<close>: raises \<open>KeyError(k)\<close>, whose \<open>str\<close> is the key in quotes.\<close>

definition getitem :: "pydict \<Rightarrow> string \<Rightarrow> exn + pyval" where
  "getitem d k =
     (case map_of d k of
        None \<Rightarrow> Inl (Exn KeyError ([CHR 0x27] @ k @ [CHR 0x27]))
      | Some v \<Rightarrow> Inr v)"

text \<open>\<open>d.get(k, default)\<close>.\<close>

definition dict_get :: "pydict \<Rightarrow> string \<Rightarrow> pyval \<Rightarrow> pyval" where
  "dict_get d k dflt = (case map_of d k of None \<Rightarrow> dflt | Some v \<Rightarrow> v)"

text \<open>\<open>d.pop(k, None)\<close>, the returned value discarded.\<close>

definition dict_pop :: "string \<Rightarrow> pydict \<Rightarrow> pydict" where
  "dict_pop k d = filter (\<lambda>kv. fst kv \<noteq> k) d"

text \<open>\<open>d[k] = v\<close>: an existing key keeps its place, a new key goes last.\<close>

fun setitem :: "string \<Rightarrow> pyval \<Rightarrow> pydict \<Rightarrow> pydict" where
  "setitem k v [] = [(k, v)]"
| "setitem k v (p # ps) = (if fst p = k then (k, v) # ps else p # setitem k v ps)"

text \<open>\<open>{k: v for k, v in d.items() if k in allowed}\<close>.\<close>

definition filter_params :: "string list \<Rightarrow> pydict \<Rightarrow> pydict" where
  "filter_params allowed d = filter (\<lambda>kv. fst kv \<in> set allowed) d"

subsection \<open>\<open>json.dumps({"error": s})\<close>\<close>

text \<open>
  The encoder with \<open>ensure_ascii\<close> (the default): a backslash, a double quote and
  every character outside the range from space to tilde are escaped.
\<close>

definition hexdigit :: "nat \<Rightarrow> char" where
  "hexdigit n = (if n < 10 then char_of (48 + n) else char_of (87 + n))"

definition json_escape_char :: "char \<Rightarrow> string" where
  "json_escape_char c =
     (if c = CHR 0x5C then [CHR 0x5C, CHR 0x5C]
      else if c = CHR 0x22 then [CHR 0x5C, CHR 0x22]
      else if c = CHR 0x08 then [CHR 0x5C, CHR ''b'']
      else if c = CHR 0x0C then [CHR 0x5C, CHR ''f'']
      else if c = CHR 0x0A then [CHR 0x5C, CHR ''n'']
      else if c = CHR 0x0D then [CHR 0x5C, CHR ''r'']
      else if c = CHR 0x09 then [CHR 0x5C, CHR ''t'']
      else if 32 \<le> (of_char c :: nat) \<and> (of_char c :: nat) \<le> 126 then [c]
      else [CHR 0x5C, CHR ''u'', CHR ''0'', CHR ''0'',
            hexdigit ((of_char c :: nat) div 16), hexdigit ((of_char c :: nat) mod 16)])"

definition json_dumps_error :: "string \<Rightarrow> string" where
  "json_dumps_error s =
     [CHR ''{'', CHR 0x22] @ ''error'' @ [CHR 0x22, CHR '':'', CHR '' '', CHR 0x22]
       @ concat (map json_escape_char s) @ [CHR 0x22, CHR ''}'']"

section \<open>Azure\_DeepSeekR1.py\<close>

subsection \<open>\<open>pop_system_message\<close>\<close>

text \<open>
  The loop of \<open>pop_system_message\<close>, with \<open>system_message\<close> and
  \<open>updated_messages\<close> as accumulators. \<open>message['role']\<close> and
  \<open>message['content']\<close> raise \<open>KeyError\<close> on a message without the key.
\<close>

fun pop_system_message_loop ::
  "pydict list \<Rightarrow> pyval \<Rightarrow> pydict list \<Rightarrow> exn + (pyval \<times> pydict list)" where
  "pop_system_message_loop [] system_message updated_messages =
     Inr (system_message, updated_messages)"
| "pop_system_message_loop (message # rest) system_message updated_messages =
     (case getitem message ''role'' of
        Inl e \<Rightarrow> Inl e
      | Inr role \<Rightarrow>
          if role = PStr ''system'' then
            (case getitem message ''content'' of
               Inl e \<Rightarrow> Inl e
             | Inr content \<Rightarrow> pop_system_message_loop rest content updated_messages)
          else pop_system_message_loop rest system_message (updated_messages @ [message]))"

definition pop_system_message :: "pydict list \<Rightarrow> exn + (pyval \<times> pydict list)" where
  "pop_system_message messages = pop_system_message_loop messages (PStr []) []"

subsection \<open>The SDK client\<close>

text \<open>
  \<open>azure.ai.inference\<close> is not part of the repository: the client's \<open>complete\<close> is a
  parameter. Without \<open>stream\<close> it returns the completion, here the list of
  \<open>choices[i].message.content\<close>; with \<open>stream=True\<close> it returns an iterator of
  updates, each the list of its \<open>choices[i].delta.content\<close>, and the iterator may
  raise instead of yielding. Every call of \<open>complete\<close> is recorded; whether a call
  reaches the network is the SDK's affair.
\<close>

datatype ChatRequestMessage =
    SystemMessage pyval
  | UserMessage pyval
  | AssistantMessage pyval

record DeepSeekR1_Valves =
  AZURE_INFERENCE_CREDENTIAL :: string
  AZURE_INFERENCE_ENDPOINT :: string
  MODEL_ID :: string

record ChatCompletionsClient =
  endpoint :: string
  credential :: string

record complete_call =
  call_client :: ChatCompletionsClient
  call_messages :: "ChatRequestMessage list"
  call_model :: string
  call_stream :: bool
  call_params :: pydict

datatype stream_item = Update "string option list" | StreamRaises exn

record sdk =
  complete :: "complete_call \<Rightarrow> exn + string list"
  complete_stream :: "complete_call \<Rightarrow> exn + stream_item list"

record DeepSeekR1_Pipeline =
  valves :: DeepSeekR1_Valves
  client :: ChatCompletionsClient

text \<open>\<open>os.getenv(name, default)\<close> on the environment \<open>env\<close>.\<close>

definition getenv :: "(string \<rightharpoonup> string) \<Rightarrow> string \<Rightarrow> string \<Rightarrow> string" where
  "getenv env name dflt = (case env name of None \<Rightarrow> dflt | Some v \<Rightarrow> v)"

definition update_client :: "DeepSeekR1_Pipeline \<Rightarrow> DeepSeekR1_Pipeline" where
  "update_client self =
     self\<lparr>client := \<lparr>endpoint = AZURE_INFERENCE_ENDPOINT (valves self),
                       credential = AZURE_INFERENCE_CREDENTIAL (valves self)\<rparr>\<rparr>"

definition DeepSeekR1_init :: "(string \<rightharpoonup> string) \<Rightarrow> DeepSeekR1_Pipeline" where
  "DeepSeekR1_init env =
     update_client
       \<lparr>valves =
          \<lparr>AZURE_INFERENCE_CREDENTIAL =
             getenv env ''AZURE_INFERENCE_CREDENTIAL'' ''your-azure-inference-key-here'',
           AZURE_INFERENCE_ENDPOINT =
             getenv env ''AZURE_INFERENCE_ENDPOINT'' ''your-azure-inference-endpoint-here'',
           MODEL_ID = getenv env ''MODEL_ID'' ''DeepSeekR1''\<rparr>,
        client = \<lparr>endpoint = [], credential = []\<rparr>\<rparr>"

subsection \<open>\<open>stream_response\<close> and \<open>get_completion\<close>\<close>

text \<open>
  \<open>try: ... except Exception as e: return json.dumps({"error": str(e)})\<close>, the shape of
  all three methods.
\<close>

definition except_Exception :: "exn + string \<Rightarrow> string" where
  "except_Exception r = (case r of Inl e \<Rightarrow> json_dumps_error (exn_str e) | Inr s \<Rightarrow> s)"

text \<open>The loop \<open>for update in response\<close>, with \<open>complete_response\<close> as accumulator.\<close>

fun stream_loop :: "stream_item list \<Rightarrow> string \<Rightarrow> exn + string" where
  "stream_loop [] complete_response = Inr complete_response"
| "stream_loop (StreamRaises e # rest) complete_response = Inl e"
| "stream_loop (Update choices # rest) complete_response =
     (case choices of
        [] \<Rightarrow> stream_loop rest complete_response
      | delta_content # others \<Rightarrow>
          (case delta_content of
             None \<Rightarrow> stream_loop rest complete_response
           | Some s \<Rightarrow>
               if s \<noteq> [] then stream_loop rest (complete_response @ s)
               else stream_loop rest complete_response))"

definition stream_response ::
  "sdk \<Rightarrow> DeepSeekR1_Pipeline \<Rightarrow> ChatRequestMessage list \<Rightarrow> pydict
     \<Rightarrow> string \<times> complete_call list" where
  "stream_response lib self DeepSeekR1_messages params =
     (let call = \<lparr>call_client = client self, call_messages = DeepSeekR1_messages,
                   call_model = MODEL_ID (valves self), call_stream = True,
                   call_params = params\<rparr>
      in (except_Exception
            (case complete_stream lib call of
               Inl e \<Rightarrow> Inl e
             | Inr response \<Rightarrow> stream_loop response []),
          [call]))"

definition get_completion ::
  "sdk \<Rightarrow> DeepSeekR1_Pipeline \<Rightarrow> ChatRequestMessage list \<Rightarrow> pydict
     \<Rightarrow> string \<times> complete_call list" where
  "get_completion lib self DeepSeekR1_messages params =
     (let call = \<lparr>call_client = client self, call_messages = DeepSeekR1_messages,
                   call_model = MODEL_ID (valves self), call_stream = False,
                   call_params = params\<rparr>
      in (except_Exception
            (case complete lib call of
               Inl e \<Rightarrow> Inl e
             | Inr choices \<Rightarrow> (case choices of [] \<Rightarrow> Inr [] | result # others \<Rightarrow> Inr result)),
          [call]))"

subsection \<open>\<open>Pipeline.pipe\<close>\<close>

text \<open>One element of the list comprehension that builds \<open>DeepSeekR1_messages\<close>.\<close>

definition to_DeepSeekR1_message :: "pydict \<Rightarrow> exn + ChatRequestMessage" where
  "to_DeepSeekR1_message msg =
     (case getitem msg ''role'' of
        Inl e \<Rightarrow> Inl e
      | Inr role \<Rightarrow>
          (case getitem msg ''content'' of
             Inl e \<Rightarrow> Inl e
           | Inr content \<Rightarrow>
               if role = PStr ''user'' then Inr (UserMessage content)
               else if role = PStr ''system'' then Inr (SystemMessage content)
               else Inr (AssistantMessage content)))"

fun to_DeepSeekR1_messages :: "pydict list \<Rightarrow> exn + ChatRequestMessage list" where
  "to_DeepSeekR1_messages [] = Inr []"
| "to_DeepSeekR1_messages (msg # rest) =
     (case to_DeepSeekR1_message msg of
        Inl e \<Rightarrow> Inl e
      | Inr m \<Rightarrow>
          (case to_DeepSeekR1_messages rest of
             Inl e \<Rightarrow> Inl e
           | Inr ms \<Rightarrow> Inr (m # ms)))"

definition DeepSeekR1_allowed_params :: "string list" where
  "DeepSeekR1_allowed_params =
     [''temperature'', ''max_tokens'', ''presence_penalty'', ''frequency_penalty'', ''top_p'']"

text \<open>
  What a call of \<open>pipe\<close> leaves behind: the value it returns, the caller's \<open>body\<close>
  dictionary after the call, and the calls made to the SDK.
\<close>

record DeepSeekR1_outcome =
  returned :: string
  body_after :: pydict
  calls :: "complete_call list"

definition DeepSeekR1_pipe ::
  "sdk \<Rightarrow> DeepSeekR1_Pipeline \<Rightarrow> string \<Rightarrow> string \<Rightarrow> pydict list \<Rightarrow> pydict
     \<Rightarrow> DeepSeekR1_outcome" where
  "DeepSeekR1_pipe lib self user_message model_id messages body =
     (let body1 = fold dict_pop [''user'', ''chat_id'', ''title''] body in
      case pop_system_message messages of
        Inl e \<Rightarrow>
          \<lparr>returned = except_Exception (Inl e), body_after = body1, calls = []\<rparr>
      | Inr (system_message, messages1) \<Rightarrow>
          (case to_DeepSeekR1_messages messages1 of
             Inl e \<Rightarrow>
               \<lparr>returned = except_Exception (Inl e), body_after = body1, calls = []\<rparr>
           | Inr converted \<Rightarrow>
               (let DeepSeekR1_messages =
                      (if truthy system_message then [SystemMessage system_message] else [])
                        @ converted;
                    filtered_body = filter_params DeepSeekR1_allowed_params body1;
                    is_stream = dict_get body1 ''stream'' (PBool False);
                    r = (if truthy is_stream
                         then stream_response lib self DeepSeekR1_messages filtered_body
                         else get_completion lib self DeepSeekR1_messages filtered_body)
                in \<lparr>returned = except_Exception (Inr (fst r)), body_after = body1,
                     calls = snd r\<rparr>)))"

section \<open>Azure\_Openai\_Chatgpt\_o1mini.py\<close>

text \<open>
  \<open>requests\<close> is not part of the repository: \<open>requests.post\<close> is a parameter. It
  raises or returns a response, of which the code uses \<open>raise_for_status()\<close> (the
  exception it raises, if any), \<open>json()\<close>, \<open>text\<close> and \<open>iter_lines()\<close>. The
  built-in \<open>str\<close> on a decoded JSON value is a parameter as well.
\<close>

record o1mini_Valves =
  AZURE_OPENAI_API_KEY :: string
  AZURE_OPENAI_ENDPOINT :: string
  AZURE_OPENAI_DEPLOYMENT_NAME :: string
  AZURE_OPENAI_API_VERSION :: string

record Response =
  raise_for_status :: "exn option"
  json :: "exn + pyval"
  text_of :: string
  iter_lines :: "string list"

record post_call =
  url :: string
  json_arg :: pydict
  headers :: "(string \<times> string) list"
  stream_arg :: pyval

record builtins =
  post :: "post_call \<Rightarrow> exn + Response"
  str :: "pyval \<Rightarrow> string"

datatype pipe_value = Str string | Lines "string list" | Json pyval

record o1mini_outcome =
  o1mini_returned :: "exn + pipe_value"
  o1mini_body_after :: pydict
  o1mini_calls :: "post_call list"

definition o1mini_init :: "(string \<rightharpoonup> string) \<Rightarrow> o1mini_Valves" where
  "o1mini_init env =
     \<lparr>AZURE_OPENAI_API_KEY =
        getenv env ''AZURE_OPENAI_API_KEY'' ''your-azure-openai-api-key-here'',
      AZURE_OPENAI_ENDPOINT =
        getenv env ''AZURE_OPENAI_ENDPOINT'' ''https://xxx.openai.azure.com'',
      AZURE_OPENAI_DEPLOYMENT_NAME = getenv env ''AZURE_OPENAI_DEPLOYMENT_NAME'' ''o1-mini'',
      AZURE_OPENAI_API_VERSION =
        getenv env ''AZURE_OPENAI_API_VERSION'' ''2024-08-01-preview''\<rparr>"

definition o1mini_allowed_params :: "string list" where
  "o1mini_allowed_params =
     [''messages'', ''temperature'', ''role'', ''content'', ''contentPart'',
      ''contentPartImage'', ''enhancements'', ''data_sources'', ''n'', ''stream'', ''stop'',
      ''max_tokens'', ''presence_penalty'', ''frequency_penalty'', ''logit_bias'', ''user'',
      ''function_call'', ''functions'', ''tools'', ''tool_choice'', ''top_p'', ''log_probs'',
      ''top_logprobs'', ''response_format'', ''seed'']"

text \<open>The name of a value's type, as an \<open>AttributeError\<close> prints it.\<close>

fun type_name :: "pyval \<Rightarrow> string" where
  "type_name PNone = ''NoneType''"
| "type_name (PBool b) = ''bool''"
| "type_name (PInt i) = ''int''"
| "type_name (PFloat r) = ''float''"
| "type_name (PStr s) = ''str''"
| "type_name (PList xs) = ''list''"
| "type_name (PDict d) = ''dict''"

text \<open>
  The remapping of \<open>body["user"]\<close>, before the \<open>try\<close>. Only a dictionary has
  \<open>.get\<close>: on any other value that is not a string the attribute lookup raises.
\<close>

definition remap_user :: "(pyval \<Rightarrow> string) \<Rightarrow> pydict \<Rightarrow> exn + pydict" where
  "remap_user str_fn body =
     (case map_of body ''user'' of
        None \<Rightarrow> Inr body
      | Some u \<Rightarrow>
          if is_str u then Inr body
          else
            (case u of
               PDict d \<Rightarrow> Inr (setitem ''user'' (dict_get d ''id'' (PStr (str_fn u))) body)
             | _ \<Rightarrow>
                 Inl (Exn AttributeError
                        ([CHR 0x27] @ type_name u @ [CHR 0x27]
                           @ '' object has no attribute '' @ [CHR 0x27] @ ''get''
                           @ [CHR 0x27]))))"

text \<open>The statements of the \<open>try\<close> block after \<open>requests.post\<close> has returned.\<close>

definition after_post :: "Response \<Rightarrow> pydict \<Rightarrow> exn + pipe_value" where
  "after_post response filtered_body =
     (case raise_for_status response of
        Some e \<Rightarrow> Inl e
      | None \<Rightarrow>
          if truthy (dict_get filtered_body ''stream'' PNone)
          then Inr (Lines (iter_lines response))
          else (case json response of Inl e \<Rightarrow> Inl e | Inr v \<Rightarrow> Inr (Json v)))"

text \<open>
  The handler \<open>except requests.RequestException as e\<close>. The local \<open>response\<close> is
  bound only once \<open>requests.post\<close> has returned; reading it unbound raises
  \<open>UnboundLocalError\<close> (the wording of its message depends on the interpreter's
  version).
\<close>

definition except_RequestException ::
  "(pyval \<Rightarrow> string) \<Rightarrow> exn \<Rightarrow> Response option \<Rightarrow> exn + pipe_value" where
  "except_RequestException str_fn e response =
     (case response of
        None \<Rightarrow>
          Inl (Exn UnboundLocalError
                 (''local variable '' @ [CHR 0x27] @ ''response'' @ [CHR 0x27]
                    @ '' referenced before assignment''))
      | Some r \<Rightarrow>
          (case json r of
             Inr error_details \<Rightarrow>
               Inr (Str (''Error: Request failed: '' @ exn_str e @ '' | Details: ''
                           @ str_fn error_details))
           | Inl e2 \<Rightarrow>
               if is_ValueError e2
               then Inr (Str (''Error: Request failed: '' @ exn_str e
                                @ '' | Response Text: '' @ text_of r))
               else Inl e2))"

text \<open>An exception leaving the \<open>try\<close> block: handled if it is a \<open>RequestException\<close>.\<close>

definition try_except ::
  "(pyval \<Rightarrow> string) \<Rightarrow> exn + pipe_value \<Rightarrow> Response option \<Rightarrow> exn + pipe_value" where
  "try_except str_fn r response =
     (case r of
        Inr v \<Rightarrow> Inr v
      | Inl e \<Rightarrow>
          if is_RequestException e then except_RequestException str_fn e response
          else Inl e)"

definition o1mini_pipe ::
  "builtins \<Rightarrow> o1mini_Valves \<Rightarrow> string \<Rightarrow> string \<Rightarrow> pydict list \<Rightarrow> pydict
     \<Rightarrow> o1mini_outcome" where
  "o1mini_pipe lib self_valves user_message model_id messages body =
     (let headers_v = [(''api-key'', AZURE_OPENAI_API_KEY self_valves),
                       (''Content-Type'', ''application/json'')];
          url_v = AZURE_OPENAI_ENDPOINT self_valves @ ''/openai/deployments/''
                    @ AZURE_OPENAI_DEPLOYMENT_NAME self_valves @ ''/chat/completions''
                    @ ''?api-version='' @ AZURE_OPENAI_API_VERSION self_valves
      in case remap_user (str lib) body of
           Inl e \<Rightarrow>
             \<lparr>o1mini_returned = Inl e, o1mini_body_after = body, o1mini_calls = []\<rparr>
         | Inr body1 \<Rightarrow>
             (let filtered_body = filter_params o1mini_allowed_params body1;
                  call = \<lparr>url = url_v, json_arg = filtered_body, headers = headers_v,
                          stream_arg = dict_get filtered_body ''stream'' (PBool False)\<rparr>
              in case post lib call of
                   Inl e \<Rightarrow>
                     \<lparr>o1mini_returned = try_except (str lib) (Inl e) None,
                      o1mini_body_after = body1, o1mini_calls = [call]\<rparr>
                 | Inr response \<Rightarrow>
                     \<lparr>o1mini_returned =
                        try_except (str lib) (after_post response filtered_body)
                          (Some response),
                      o1mini_body_after = body1, o1mini_calls = [call]\<rparr>))"

section \<open>Inputs\<close>

text \<open>
  A message with both keys the code reads, a message of another role than \<open>system\<close>,
  and a \<open>system\<close> message of content \<open>c\<close>.
\<close>

definition well_formed :: "pydict \<Rightarrow> bool" where
  "well_formed m = (map_of m ''role'' \<noteq> None \<and> map_of m ''content'' \<noteq> None)"

definition non_system :: "pydict \<Rightarrow> bool" where
  "non_system m =
     (case map_of m ''role'' of None \<Rightarrow> False | Some r \<Rightarrow> r \<noteq> PStr ''system'')"

definition system_with :: "pydict \<Rightarrow> pyval \<Rightarrow> bool" where
  "system_with m c =
     (map_of m ''role'' = Some (PStr ''system'') \<and> map_of m ''content'' = Some c)"

text \<open>
  The text fragments of a stream of updates: the first choice's delta of every update
  that has a choice, when it is present and not empty.
\<close>

definition fragments :: "string option list list \<Rightarrow> string list" where
  "fragments chunks = [s. Some s # others \<leftarrow> chunks, s \<noteq> []]"

text \<open>
  The inputs of scenarios A, B and D, and mocks of the two libraries: a provider that
  answers (scenario B's deltas when streaming) and one that rejects the call; an HTTP
  endpoint that answers with a completion, one that answers with an event stream, one
  that answers with an error status, and one that cannot be reached.
\<close>

definition user_question :: pydict where
  "user_question =
     [(''role'', PStr ''user''), (''content'', PStr ''How many languages are in the world?'')]"

definition scenario_body :: "bool \<Rightarrow> pydict" where
  "scenario_body stream =
     [(''temperature'', PFloat (1 / 2)), (''max_tokens'', PInt 150),
      (''stream'', PBool stream)]"

definition scenario_D_body :: pydict where
  "scenario_D_body =
     [(''chat_id'', PStr ''c1''), (''title'', PStr ''Languages''),
      (''user'', PDict [(''id'', PStr ''u1''), (''name'', PStr ''Ada'')]),
      (''temperature'', PFloat (1 / 2))]"

definition mock_sdk :: sdk where
  "mock_sdk =
     \<lparr>complete = (\<lambda>c. Inr [''About 7000.'']),
      complete_stream =
        (\<lambda>c. Inr (map Update [[Some ''There ''], [Some ''are ''], [Some ''about ''],
                                [Some ''7000.'']]))\<rparr>"

definition mock_response :: Response where
  "mock_response =
     \<lparr>raise_for_status = None,
      json = Inr (PDict [(''choices'',
                PList [PDict [(''message'', PDict [(''content'', PStr ''About 7000.'')])]])]),
      text_of = ''(the body)'',
      iter_lines = [''(the body)'']\<rparr>"

definition mock_builtins :: builtins where
  "mock_builtins = \<lparr>post = (\<lambda>c. Inr mock_response), str = (\<lambda>v. ''(str of the value)'')\<rparr>"






definition unreachable_builtins :: builtins where
  "unreachable_builtins =
     \<lparr>post = (\<lambda>c. Inl (Exn RequestException ''connection refused'')),
      str = (\<lambda>v. ''(str of the value)'')\<rparr>"

section \<open>Properties of \<open>pop_system_message\<close>\<close>

lemma loop_non_system:
  "list_all non_system ms \<Longrightarrow> pop_system_message_loop ms sm um = Inr (sm, um @ ms)"
  by (induction ms arbitrary: um)
     (auto simp: non_system_def getitem_def split: option.splits)

lemma loop_system:
  "system_with m c \<Longrightarrow>
   pop_system_message_loop (m # rest) sm um = pop_system_message_loop rest c um"
  by (simp add: system_with_def getitem_def)

lemma loop_step_non_system:
  "non_system m \<Longrightarrow>
   pop_system_message_loop (m # rest) sm um = pop_system_message_loop rest sm (um @ [m])"
  by (auto simp: non_system_def getitem_def split: option.splits)

lemma loop_append:
  "pop_system_message_loop xs sm um = Inr (sm', um') \<Longrightarrow>
   pop_system_message_loop (xs @ ys) sm um = pop_system_message_loop ys sm' um'"
  by (induction xs sm um rule: pop_system_message_loop.induct)
     (auto split: sum.splits if_splits)

lemma system_not_non_system: "system_with A a \<Longrightarrow> \<not> non_system A"
  by (simp add: system_with_def non_system_def)

lemma well_formed_cases:
  assumes "well_formed m"
  obtains "non_system m" | c where "system_with m c"
proof (cases "non_system m")
  case True
  then show ?thesis by (rule that(1))
next
  case False
  with assms obtain c where "system_with m c"
    by (auto simp: well_formed_def non_system_def system_with_def split: option.splits)
  then show ?thesis by (rule that(2))
qed

lemma loop_well_formed:
  "list_all well_formed ms \<Longrightarrow>
   \<exists>sm'. pop_system_message_loop ms sm um = Inr (sm', um @ filter non_system ms)"
proof (induction ms arbitrary: sm um)
  case Nil
  then show ?case by simp
next
  case (Cons m ms)
  then have w: "well_formed m" and ws: "list_all well_formed ms" by simp_all
  from w show ?case
  proof (cases rule: well_formed_cases)
    case 1
    with Cons.IH[OF ws, of sm "um @ [m]"] show ?thesis
      by (simp add: loop_step_non_system del: pop_system_message_loop.simps)
  next
    case (2 c)
    with Cons.IH[OF ws, of c um] system_not_non_system[OF 2] show ?thesis
      by (simp add: loop_system del: pop_system_message_loop.simps)
  qed
qed

lemma pop_system_message_last:
  assumes "list_all well_formed pre" and "system_with B b" and "list_all non_system zs"
  shows "pop_system_message (pre @ [B] @ zs) = Inr (b, filter non_system pre @ zs)"
proof -
  obtain sm where
    1: "pop_system_message_loop pre (PStr []) [] = Inr (sm, filter non_system pre)"
    using loop_well_formed[OF assms(1), of "PStr []" "[]"] by auto
  have 2: "pop_system_message_loop (B # zs) sm (filter non_system pre)
           = pop_system_message_loop zs b (filter non_system pre)"
    by (rule loop_system[OF assms(2)])
  have "pop_system_message_loop (pre @ B # zs) (PStr []) []
        = Inr (b, filter non_system pre @ zs)"
    using loop_append[OF 1, of "B # zs"] 2
      loop_non_system[OF assms(3), of b "filter non_system pre"]
    by (simp only:)
  then show ?thesis by (simp add: pop_system_message_def)
qed

text \<open>
  C5. Two system messages \<open>A\<close> then \<open>B\<close> among messages of other roles: the system
  message returned is the content of \<open>B\<close>, the conversation returned is the other
  messages in their order, and \<open>A\<close> is not in it.
\<close>

theorem last_system_message_wins:
  assumes "list_all non_system xs" "list_all non_system ys" "list_all non_system zs"
    and "system_with A a" "system_with B b"
  shows "pop_system_message (xs @ [A] @ ys @ [B] @ zs) = Inr (b, xs @ ys @ zs)
         \<and> A \<notin> set (xs @ ys @ zs)"
proof -
  have 1: "pop_system_message_loop xs (PStr []) [] = Inr (PStr [], xs)"
    using assms(1) by (simp add: loop_non_system)
  have 2: "pop_system_message_loop (A # (ys @ B # zs)) (PStr []) xs
           = pop_system_message_loop (ys @ B # zs) a xs"
    by (rule loop_system[OF assms(4)])
  have 3: "pop_system_message_loop ys a xs = Inr (a, xs @ ys)"
    using assms(2) by (simp add: loop_non_system)
  have 4: "pop_system_message_loop (B # zs) a (xs @ ys)
           = pop_system_message_loop zs b (xs @ ys)"
    by (rule loop_system[OF assms(5)])
  have 5: "pop_system_message_loop zs b (xs @ ys) = Inr (b, (xs @ ys) @ zs)"
    using assms(3) by (rule loop_non_system)
  have "pop_system_message_loop (xs @ A # (ys @ B # zs)) (PStr []) []
        = Inr (b, (xs @ ys) @ zs)"
    using loop_append[OF 1, of "A # (ys @ B # zs)"] 2 loop_append[OF 3, of "B # zs"] 4 5
    by (simp only:)
  then have "pop_system_message (xs @ [A] @ ys @ [B] @ zs) = Inr (b, xs @ ys @ zs)"
    by (simp add: pop_system_message_def)
  moreover have "A \<notin> set (xs @ ys @ zs)"
    using assms(1-3) system_not_non_system[OF assms(4)] by (auto simp: list_all_iff)
  ultimately show ?thesis by blast
qed

theorem last_system_message_wins_witness:
  "list_all non_system [[(''role'', PStr ''user''), (''content'', PStr ''hi'')]]
   \<and> list_all non_system []
   \<and> list_all non_system [[(''role'', PStr ''assistant''), (''content'', PStr ''yo'')]]
   \<and> system_with [(''role'', PStr ''system''), (''content'', PStr ''A'')] (PStr ''A'')
   \<and> system_with [(''role'', PStr ''system''), (''content'', PStr ''B'')] (PStr ''B'')
   \<and> pop_system_message
        ([[(''role'', PStr ''user''), (''content'', PStr ''hi'')]]
         @ [[(''role'', PStr ''system''), (''content'', PStr ''A'')]] @ []
         @ [[(''role'', PStr ''system''), (''content'', PStr ''B'')]]
         @ [[(''role'', PStr ''assistant''), (''content'', PStr ''yo'')]])
       = Inr (PStr ''B'',
              [[(''role'', PStr ''user''), (''content'', PStr ''hi'')]] @ []
              @ [[(''role'', PStr ''assistant''), (''content'', PStr ''yo'')]])
   \<and> [(''role'', PStr ''system''), (''content'', PStr ''A'')]
       \<notin> set ([[(''role'', PStr ''user''), (''content'', PStr ''hi'')]] @ []
                @ [[(''role'', PStr ''assistant''), (''content'', PStr ''yo'')]])"
proof -
  have h1: "list_all non_system [[(''role'', PStr ''user''), (''content'', PStr ''hi'')]]"
    by (simp add: non_system_def)
  have h2: "list_all non_system []" by simp
  have h3: "list_all non_system
              [[(''role'', PStr ''assistant''), (''content'', PStr ''yo'')]]"
    by (simp add: non_system_def)
  have h4: "system_with [(''role'', PStr ''system''), (''content'', PStr ''A'')] (PStr ''A'')"
    by (simp add: system_with_def)
  have h5: "system_with [(''role'', PStr ''system''), (''content'', PStr ''B'')] (PStr ''B'')"
    by (simp add: system_with_def)
  from last_system_message_wins[OF h1 h2 h3 h4 h5] h1 h2 h3 h4 h5 show ?thesis
    by blast
qed




section \<open>Dictionaries, streams and the shape of \<open>pipe\<close>\<close>

lemma map_of_dict_pop: "map_of (dict_pop k d) k' = (if k' = k then None else map_of d k')"
  by (induction d) (auto simp: dict_pop_def)


lemma map_of_setitem: "map_of (setitem k v d) k' = (if k' = k then Some v else map_of d k')"
  by (induction d) auto

lemma fold_dict_pop:
  "fold dict_pop [''user'', ''chat_id'', ''title''] body
   = filter (\<lambda>kv. fst kv \<notin> {''user'', ''chat_id'', ''title''}) body"
  by (induction body) (auto simp: dict_pop_def)

lemma map_of_popped:
  "map_of (fold dict_pop [''user'', ''chat_id'', ''title''] body) k
   = (if k \<in> {''user'', ''chat_id'', ''title''} then None else map_of body k)"
  by (simp add: map_of_dict_pop)

lemma fragments_Nil: "fragments [] = []"
  by (simp add: fragments_def)

lemma fragments_Cons:
  "fragments (c # cs) =
     (case c of [] \<Rightarrow> fragments cs
      | d # others \<Rightarrow> (case d of None \<Rightarrow> fragments cs
           | Some s \<Rightarrow> if s \<noteq> [] then s # fragments cs else fragments cs))"
  by (simp add: fragments_def split: list.splits option.splits)

lemma stream_loop_fragments:
  "stream_loop (map Update chunks) acc = Inr (acc @ concat (fragments chunks))"
  by (induction chunks arbitrary: acc)
     (auto simp: fragments_Nil fragments_Cons split: list.splits option.splits)

text \<open>
  C6. Collecting a stream of updates that ends without raising returns the
  concatenation of its fragments, in order: an update with no choice, with no delta
  or with an empty delta adds nothing, and the result is the text itself, not an error
  envelope.
\<close>

theorem stream_response_concatenates_fragments:
  "fst (stream_response (lib\<lparr>complete_stream := (\<lambda>c. Inr (map Update chunks))\<rparr>)
          self msgs params)
   = concat (fragments chunks)"
  by (simp add: stream_response_def except_Exception_def stream_loop_fragments)

lemma size_dict_entry: "(k, v) \<in> set d \<Longrightarrow> size v < size (PDict d)"
  by (induction d) auto

lemma dict_get_not_self: "dict_get d k (PStr s) \<noteq> PDict d"
proof (cases "map_of d k")
  case None
  then show ?thesis by (simp add: dict_get_def)
next
  case (Some v)
  then have "(k, v) \<in> set d" by (rule map_of_SomeD)
  then have "size v < size (PDict d)" by (rule size_dict_entry)
  then have "v \<noteq> PDict d" by auto
  with Some show ?thesis by (simp add: dict_get_def)
qed

lemma to_message_well_formed:
  "well_formed m \<Longrightarrow> \<exists>c. to_DeepSeekR1_message m = Inr c"
  by (auto simp: well_formed_def to_DeepSeekR1_message_def getitem_def)

lemma to_messages_well_formed:
  "list_all well_formed ms \<Longrightarrow>
   \<exists>cs. to_DeepSeekR1_messages ms = Inr cs
       \<and> list_all2 (\<lambda>m c. to_DeepSeekR1_message m = Inr c) ms cs"
proof (induction ms)
  case Nil
  then show ?case by simp
next
  case (Cons m ms)
  then obtain cs where cs: "to_DeepSeekR1_messages ms = Inr cs"
      "list_all2 (\<lambda>m c. to_DeepSeekR1_message m = Inr c) ms cs" by auto
  from Cons.prems have "well_formed m" by simp
  then obtain c where c: "to_DeepSeekR1_message m = Inr c"
    using to_message_well_formed by blast
  with cs show ?case by simp
qed

lemma pop_system_message_well_formed:
  "list_all well_formed ms \<Longrightarrow>
   \<exists>sm. pop_system_message ms = Inr (sm, filter non_system ms)"
  using loop_well_formed[of ms "PStr []" "[]"] by (simp add: pop_system_message_def)

lemma list_all_filter: "list_all P xs \<Longrightarrow> list_all P (filter Q xs)"
  by (induction xs) auto

text \<open>The shape of \<open>pipe\<close> on messages that all have a role and a content.\<close>

lemma pipe_well_formed:
  assumes "list_all well_formed messages"
  obtains sm cs where
    "pop_system_message messages = Inr (sm, filter non_system messages)"
    "to_DeepSeekR1_messages (filter non_system messages) = Inr cs"
    "list_all2 (\<lambda>m c. to_DeepSeekR1_message m = Inr c) (filter non_system messages) cs"
    "DeepSeekR1_pipe lib self um mid messages body =
       (let body1 = fold dict_pop [''user'', ''chat_id'', ''title''] body;
            r = (if truthy (dict_get body ''stream'' (PBool False))
                 then stream_response lib self
                        ((if truthy sm then [SystemMessage sm] else []) @ cs)
                        (filter_params DeepSeekR1_allowed_params body1)
                 else get_completion lib self
                        ((if truthy sm then [SystemMessage sm] else []) @ cs)
                        (filter_params DeepSeekR1_allowed_params body1))
        in \<lparr>returned = fst r, body_after = body1, calls = snd r\<rparr>)"
proof -
  from pop_system_message_well_formed[OF assms] obtain sm where
    1: "pop_system_message messages = Inr (sm, filter non_system messages)" by blast
  from to_messages_well_formed[OF list_all_filter[OF assms, of non_system]] obtain cs where
    2: "to_DeepSeekR1_messages (filter non_system messages) = Inr cs"
    and 3: "list_all2 (\<lambda>m c. to_DeepSeekR1_message m = Inr c) (filter non_system messages) cs"
    by blast
  have 4: "DeepSeekR1_pipe lib self um mid messages body =
       (let body1 = fold dict_pop [''user'', ''chat_id'', ''title''] body;
            r = (if truthy (dict_get body ''stream'' (PBool False))
                 then stream_response lib self
                        ((if truthy sm then [SystemMessage sm] else []) @ cs)
                        (filter_params DeepSeekR1_allowed_params body1)
                 else get_completion lib self
                        ((if truthy sm then [SystemMessage sm] else []) @ cs)
                        (filter_params DeepSeekR1_allowed_params body1))
        in \<lparr>returned = fst r, body_after = body1, calls = snd r\<rparr>)"
    using 1 2
    by (simp add: DeepSeekR1_pipe_def Let_def except_Exception_def dict_get_def
          map_of_dict_pop)
  from 1 2 3 4 show ?thesis by (rule that)
qed

lemma body_after_pipe:
  "body_after (DeepSeekR1_pipe lib self um mid messages body)
   = fold dict_pop [''user'', ''chat_id'', ''title''] body"
  by (simp add: DeepSeekR1_pipe_def Let_def split: sum.splits prod.splits)

lemma calls_stream_response:
  "snd (stream_response lib self msgs params)
   = [\<lparr>call_client = client self, call_messages = msgs, call_model = MODEL_ID (valves self),
       call_stream = True, call_params = params\<rparr>]"
  by (simp add: stream_response_def Let_def)

lemma calls_get_completion:
  "snd (get_completion lib self msgs params)
   = [\<lparr>call_client = client self, call_messages = msgs, call_model = MODEL_ID (valves self),
       call_stream = False, call_params = params\<rparr>]"
  by (simp add: get_completion_def Let_def)


lemma filter_non_system_id: "list_all non_system xs \<Longrightarrow> filter non_system xs = xs"
  by (induction xs) auto

lemma system_with_well_formed: "system_with S s \<Longrightarrow> well_formed S"
  by (simp add: system_with_def well_formed_def)

lemma filter_changes:
  "(filter P xs \<noteq> xs) = (\<exists>x \<in> set xs. \<not> P x)"
  by (simp add: filter_id_conv)

lemma map_of_present: "(map_of d k \<noteq> None) = (k \<in> fst ` set d)"
  by (simp add: map_of_eq_None_iff)

lemma popped_changes:
  "(filter (\<lambda>kv. fst kv \<notin> {''user'', ''chat_id'', ''title''}) body \<noteq> body)
   = (map_of body ''user'' \<noteq> None \<or> map_of body ''chat_id'' \<noteq> None
      \<or> map_of body ''title'' \<noteq> None)"
  unfolding filter_changes map_of_present by force

lemma remap_user_dict:
  "map_of body ''user'' = Some (PDict d) \<Longrightarrow>
   remap_user f body = Inr (setitem ''user'' (dict_get d ''id'' (PStr (f (PDict d)))) body)"
  by (simp add: remap_user_def)


lemma setitem_changes:
  assumes "map_of body k = Some w" "v \<noteq> w"
  shows "setitem k v body \<noteq> body"
proof
  assume "setitem k v body = body"
  then have "map_of (setitem k v body) k = map_of body k" by simp
  with assms show False by (simp add: map_of_setitem)
qed

lemma o1mini_pipe_shape:
  assumes "remap_user (str lib) body = Inr body1"
  shows "o1mini_pipe lib v um mid ms body =
     (let filtered_body = filter_params o1mini_allowed_params body1;
          call = \<lparr>url = AZURE_OPENAI_ENDPOINT v @ ''/openai/deployments/''
                    @ AZURE_OPENAI_DEPLOYMENT_NAME v @ ''/chat/completions''
                    @ ''?api-version='' @ AZURE_OPENAI_API_VERSION v,
                  json_arg = filtered_body,
                  headers = [(''api-key'', AZURE_OPENAI_API_KEY v),
                             (''Content-Type'', ''application/json'')],
                  stream_arg = dict_get filtered_body ''stream'' (PBool False)\<rparr>
      in \<lparr>o1mini_returned =
            (case post lib call of
               Inl e \<Rightarrow> try_except (str lib) (Inl e) None
             | Inr response \<Rightarrow>
                 try_except (str lib) (after_post response filtered_body) (Some response)),
          o1mini_body_after = body1, o1mini_calls = [call]\<rparr>)"
  using assms by (simp add: o1mini_pipe_def Let_def split: sum.splits)

section \<open>Properties of \<open>pipe\<close>\<close>











lemma well_formed_user_question: "list_all well_formed [user_question]"
  by (simp add: well_formed_def user_question_def)


text \<open>
  C1 fails on the o1-mini pipeline. When \<open>requests.post\<close> itself raises (the endpoint
  cannot be reached), the handler reads the local \<open>response\<close>, which was never bound:
  \<open>pipe\<close> raises \<open>UnboundLocalError\<close> instead of returning an error string.
\<close>

theorem o1mini_pipe_raises_when_unreachable:
  "o1mini_returned (o1mini_pipe unreachable_builtins (o1mini_init Map.empty) ''How many languages are in the world?''
        ''o1-mini'' [user_question] (scenario_body False))
   = Inl (Exn UnboundLocalError
            (''local variable '' @ [CHR 0x27] @ ''response'' @ [CHR 0x27]
               @ '' referenced before assignment''))"
  by (simp add: o1mini_pipe_def remap_user_def Let_def unreachable_builtins_def
        scenario_body_def try_except_def except_RequestException_def)










text \<open>
  C8, as the code has it. With exactly one system message \<open>S\<close>, of content
  \<open>s\<close>, among messages of other roles that have a content, the messages sent to the
  provider are the other messages, converted one by one in their order, with the system
  message in front of them when \<open>s\<close> is truthy, and without it otherwise.
\<close>

theorem single_system_message_hoisted:
  assumes "list_all well_formed xs" "list_all non_system xs"
    and "list_all well_formed ys" "list_all non_system ys"
    and "system_with S s"
  shows "\<exists>cs. list_all2 (\<lambda>m c. to_DeepSeekR1_message m = Inr c) (xs @ ys) cs
           \<and> map call_messages (calls (DeepSeekR1_pipe lib self um mid (xs @ [S] @ ys) body))
               = [(if truthy s then [SystemMessage s] else []) @ cs]"
proof -
  have wf: "list_all well_formed (xs @ [S] @ ys)"
    using assms(1,3) system_with_well_formed[OF assms(5)] by simp
  have p: "pop_system_message (xs @ [S] @ ys) = Inr (s, xs @ ys)"
    using pop_system_message_last[OF assms(1) assms(5) assms(4)]
      filter_non_system_id[OF assms(2)] by simp
  from wf obtain sm cs where
    1: "pop_system_message (xs @ [S] @ ys) = Inr (sm, filter non_system (xs @ [S] @ ys))"
    and 3: "list_all2 (\<lambda>m c. to_DeepSeekR1_message m = Inr c)
              (filter non_system (xs @ [S] @ ys)) cs"
    and 4: "DeepSeekR1_pipe lib self um mid (xs @ [S] @ ys) body =
       (let body1 = fold dict_pop [''user'', ''chat_id'', ''title''] body;
            r = (if truthy (dict_get body ''stream'' (PBool False))
                 then stream_response lib self
                        ((if truthy sm then [SystemMessage sm] else []) @ cs)
                        (filter_params DeepSeekR1_allowed_params body1)
                 else get_completion lib self
                        ((if truthy sm then [SystemMessage sm] else []) @ cs)
                        (filter_params DeepSeekR1_allowed_params body1))
        in \<lparr>returned = fst r, body_after = body1, calls = snd r\<rparr>)"
    by (rule pipe_well_formed[where lib = lib and self = self and um = um and mid = mid
          and body = body])
  from 1 p have sm: "sm = s" and f: "filter non_system (xs @ [S] @ ys) = xs @ ys"
    by simp_all
  have "map call_messages (calls (DeepSeekR1_pipe lib self um mid (xs @ [S] @ ys) body))
        = [(if truthy s then [SystemMessage s] else []) @ cs]"
    unfolding 4 sm by (simp add: Let_def calls_stream_response calls_get_completion)
  with 3 f show ?thesis by auto
qed

theorem single_system_message_hoisted_witness:
  "list_all well_formed [user_question] \<and> list_all non_system [user_question]
   \<and> list_all well_formed [] \<and> list_all non_system []
   \<and> system_with [(''role'', PStr ''system''), (''content'', PStr ''Be brief.'')] (PStr ''Be brief.'')
   \<and> map call_messages
        (calls (DeepSeekR1_pipe mock_sdk (DeepSeekR1_init Map.empty) ''How many languages are in the world?''
           ''DeepSeekR1''
           ([user_question] @ [[(''role'', PStr ''system''), (''content'', PStr ''Be brief.'')]] @ [])
           (scenario_body False)))
       = [[SystemMessage (PStr ''Be brief.''), UserMessage (PStr ''How many languages are in the world?'')]]"
proof -
  have h2: "list_all non_system [user_question]"
    by (simp add: non_system_def user_question_def)
  have h3: "list_all well_formed []" by simp
  have h4: "list_all non_system []" by simp
  have h5: "system_with [(''role'', PStr ''system''), (''content'', PStr ''Be brief.'')] (PStr ''Be brief.'')"
    by (simp add: system_with_def)
  from single_system_message_hoisted[OF well_formed_user_question h2 h3 h4 h5,
      where lib = mock_sdk and self = "DeepSeekR1_init Map.empty" and um = "''How many languages are in the world?''"
        and mid = "''DeepSeekR1''" and body = "scenario_body False"]
  obtain cs where
    l: "list_all2 (\<lambda>m c. to_DeepSeekR1_message m = Inr c) ([user_question] @ []) cs"
    and e: "map call_messages
        (calls (DeepSeekR1_pipe mock_sdk (DeepSeekR1_init Map.empty) ''How many languages are in the world?''
           ''DeepSeekR1''
           ([user_question] @ [[(''role'', PStr ''system''), (''content'', PStr ''Be brief.'')]] @ [])
           (scenario_body False)))
       = [(if truthy (PStr ''Be brief.'') then [SystemMessage (PStr ''Be brief.'')]
           else []) @ cs]"
    by (elim exE conjE)
  have u: "to_DeepSeekR1_message user_question
           = Inr (UserMessage (PStr ''How many languages are in the world?''))"
    by (simp add: to_DeepSeekR1_message_def getitem_def user_question_def)
  from l obtain c where "cs = [c]" and "to_DeepSeekR1_message user_question = Inr c"
    by (auto simp: list_all2_Cons1)
  with u have "cs = [UserMessage (PStr ''How many languages are in the world?'')]"
    by simp
  with e have "map call_messages
        (calls (DeepSeekR1_pipe mock_sdk (DeepSeekR1_init Map.empty) ''How many languages are in the world?''
           ''DeepSeekR1''
           ([user_question] @ [[(''role'', PStr ''system''), (''content'', PStr ''Be brief.'')]] @ [])
           (scenario_body False)))
       = [[SystemMessage (PStr ''Be brief.''), UserMessage (PStr ''How many languages are in the world?'')]]"
    by simp
  with well_formed_user_question h2 h3 h4 h5 show ?thesis by (intro conjI)
qed

text \<open>
  C8 as stated fails when the content of the system message is empty: the message is
  not moved to the front, it is left out.
\<close>

theorem empty_system_message_counterexample:
  "map call_messages
     (calls (DeepSeekR1_pipe mock_sdk (DeepSeekR1_init Map.empty) ''How many languages are in the world?''
        ''DeepSeekR1'' [user_question, [(''role'', PStr ''system''), (''content'', PStr [])]]
        (scenario_body False)))
   = [[UserMessage (PStr ''How many languages are in the world?'')]]"
  by (simp add: DeepSeekR1_pipe_def pop_system_message_def getitem_def Let_def
        to_DeepSeekR1_message_def dict_pop_def dict_get_def get_completion_def
        user_question_def scenario_body_def)




text \<open>
  C10, as the code has it. The DeepSeekR1 pipeline leaves the caller's \<open>body\<close>
  without the keys \<open>user\<close>, \<open>chat_id\<close> and \<open>title\<close>, and otherwise as it was: it
  differs from the dictionary passed in exactly when that held one of them. The o1-mini
  pipeline, given a dictionary as \<open>user\<close>, leaves \<open>body\<close> with that entry
  overwritten, which differs from the dictionary passed in.
\<close>

theorem body_mutated_in_place:
  "body_after (DeepSeekR1_pipe lib self um mid messages body)
     = filter (\<lambda>kv. fst kv \<notin> {''user'', ''chat_id'', ''title''}) body
   \<and> (body_after (DeepSeekR1_pipe lib self um mid messages body) \<noteq> body)
       = (map_of body ''user'' \<noteq> None \<or> map_of body ''chat_id'' \<noteq> None
          \<or> map_of body ''title'' \<noteq> None)
   \<and> (map_of body ''user'' = Some (PDict d) \<longrightarrow>
        o1mini_body_after (o1mini_pipe blt v um mid' messages body)
          = setitem ''user'' (dict_get d ''id'' (PStr (str blt (PDict d)))) body
        \<and> o1mini_body_after (o1mini_pipe blt v um mid' messages body) \<noteq> body)"
proof -
  have 1: "body_after (DeepSeekR1_pipe lib self um mid messages body)
           = filter (\<lambda>kv. fst kv \<notin> {''user'', ''chat_id'', ''title''}) body"
    by (simp only: body_after_pipe fold_dict_pop)
  have 2: "(body_after (DeepSeekR1_pipe lib self um mid messages body) \<noteq> body)
       = (map_of body ''user'' \<noteq> None \<or> map_of body ''chat_id'' \<noteq> None
          \<or> map_of body ''title'' \<noteq> None)"
    by (simp only: 1 popped_changes)
  have 3: "o1mini_body_after (o1mini_pipe blt v um mid' messages body)
          = setitem ''user'' (dict_get d ''id'' (PStr (str blt (PDict d)))) body
        \<and> o1mini_body_after (o1mini_pipe blt v um mid' messages body) \<noteq> body"
    if u: "map_of body ''user'' = Some (PDict d)"
  proof -
    have "o1mini_body_after (o1mini_pipe blt v um mid' messages body)
          = setitem ''user'' (dict_get d ''id'' (PStr (str blt (PDict d)))) body"
      by (simp add: o1mini_pipe_shape[OF remap_user_dict[OF u]] Let_def)
    moreover have "setitem ''user'' (dict_get d ''id'' (PStr (str blt (PDict d)))) body \<noteq> body"
      using u dict_get_not_self by (rule setitem_changes)
    ultimately show ?thesis by simp
  qed
  from 1 2 3 show ?thesis by blast
qed

theorem body_mutated_in_place_witness:
  "map_of scenario_D_body ''user'' = Some (PDict [(''id'', PStr ''u1''), (''name'', PStr ''Ada'')])
   \<and> body_after (DeepSeekR1_pipe mock_sdk (DeepSeekR1_init Map.empty) ''How many languages are in the world?''
        ''DeepSeekR1'' [user_question] scenario_D_body)
       = [(''temperature'', PFloat (1 / 2))]
   \<and> body_after (DeepSeekR1_pipe mock_sdk (DeepSeekR1_init Map.empty) ''How many languages are in the world?''
        ''DeepSeekR1'' [user_question] scenario_D_body)
       \<noteq> scenario_D_body
   \<and> o1mini_body_after (o1mini_pipe mock_builtins (o1mini_init Map.empty) ''How many languages are in the world?''
        ''o1-mini'' [user_question] scenario_D_body)
       = [(''chat_id'', PStr ''c1''), (''title'', PStr ''Languages''),
          (''user'', PStr ''u1''), (''temperature'', PFloat (1 / 2))]
   \<and> o1mini_body_after (o1mini_pipe mock_builtins (o1mini_init Map.empty) ''How many languages are in the world?''
        ''o1-mini'' [user_question] scenario_D_body)
       \<noteq> scenario_D_body"
proof -
  have h1: "map_of scenario_D_body ''user'' = Some (PDict [(''id'', PStr ''u1''), (''name'', PStr ''Ada'')])"
    by (simp add: scenario_D_body_def)
  have f: "filter (\<lambda>kv. fst kv \<notin> {''user'', ''chat_id'', ''title''}) scenario_D_body
           = [(''temperature'', PFloat (1 / 2))]"
    by (simp add: scenario_D_body_def)
  have s: "setitem ''user''
             (dict_get [(''id'', PStr ''u1''), (''name'', PStr ''Ada'')] ''id''
                (PStr (str mock_builtins (PDict [(''id'', PStr ''u1''), (''name'', PStr ''Ada'')]))))
             scenario_D_body
           = [(''chat_id'', PStr ''c1''), (''title'', PStr ''Languages''),
              (''user'', PStr ''u1''), (''temperature'', PFloat (1 / 2))]"
    by (simp add: scenario_D_body_def dict_get_def)
  note m = body_mutated_in_place[where lib = mock_sdk and self = "DeepSeekR1_init Map.empty"
      and um = "''How many languages are in the world?''" and mid = "''DeepSeekR1''" and messages = "[user_question]"
      and body = scenario_D_body and d = "[(''id'', PStr ''u1''), (''name'', PStr ''Ada'')]" and blt = mock_builtins
      and v = "o1mini_init Map.empty" and mid' = "''o1-mini''"]
  from m h1 have a: "body_after (DeepSeekR1_pipe mock_sdk (DeepSeekR1_init Map.empty) ''How many languages are in the world?''
        ''DeepSeekR1'' [user_question] scenario_D_body)
          = filter (\<lambda>kv. fst kv \<notin> {''user'', ''chat_id'', ''title''}) scenario_D_body"
    and b: "body_after (DeepSeekR1_pipe mock_sdk (DeepSeekR1_init Map.empty) ''How many languages are in the world?''
        ''DeepSeekR1'' [user_question] scenario_D_body)
          \<noteq> scenario_D_body"
    and c: "o1mini_body_after (o1mini_pipe mock_builtins (o1mini_init Map.empty) ''How many languages are in the world?''
        ''o1-mini'' [user_question] scenario_D_body)
          = setitem ''user''
             (dict_get [(''id'', PStr ''u1''), (''name'', PStr ''Ada'')] ''id''
                (PStr (str mock_builtins (PDict [(''id'', PStr ''u1''), (''name'', PStr ''Ada'')]))))
             scenario_D_body"
    and d: "o1mini_body_after (o1mini_pipe mock_builtins (o1mini_init Map.empty) ''How many languages are in the world?''
        ''o1-mini'' [user_question] scenario_D_body)
          \<noteq> scenario_D_body"
    by blast+
  from h1 a[unfolded f] b c[unfolded s] d show ?thesis by blast
qed

text \<open>
  C10 as stated fails: a \<open>user\<close> that is neither a string nor a dictionary is not
  overwritten by the o1-mini pipeline (the call raises and leaves \<open>body\<close> as it
  was), and a body without the three keys is left by the DeepSeekR1 pipeline as it was
  passed in.
\<close>

theorem body_mutation_counterexample:
  "o1mini_body_after (o1mini_pipe mock_builtins (o1mini_init Map.empty) ''How many languages are in the world?''
        ''o1-mini'' [user_question] [(''user'', PNone)])
     = [(''user'', PNone)]
   \<and> body_after (DeepSeekR1_pipe mock_sdk (DeepSeekR1_init Map.empty) ''How many languages are in the world?''
        ''DeepSeekR1'' [user_question] (scenario_body False))
     = scenario_body False"
  by (simp add: o1mini_pipe_def remap_user_def Let_def DeepSeekR1_pipe_def dict_pop_def
        scenario_body_def mock_builtins_def split: sum.splits prod.splits)

end
